theory Spec2Isabelle
  imports Main
begin

section \<open>kola qemuexec: a shallow embedding of mantle/cmd/kola/qemuexec.go\<close>

text \<open>
  The command \<^verbatim>\<open>kola qemuexec\<close> validates a flat set of flags, prepares an Ignition
  configuration, assembles a \<^verbatim>\<open>platform.QemuBuilder\<close>, launches the machine and waits
  for it. The embedding below follows \<^verbatim>\<open>runQemuExec\<close> line by line.

  \<^item> The package-level flag variables become one record \<open>options\<close>; the function
    mutates some of them, so the model passes the record along and returns it.
  \<^item> Go errors are values of the datatype \<open>error\<close>; every early \<^verbatim>\<open>return err\<close> is a
    branch of the model.
  \<^item> The collaborators that live in other packages (\<^verbatim>\<open>conf\<close>, \<^verbatim>\<open>platform\<close>,
    \<^verbatim>\<open>ioutil\<close>, the instance) are not part of this file of the repository. Their
    objects are modelled freely: a \<open>Conf\<close> is the source it was rendered from
    together with the list of mutator calls made on it, a \<open>QemuBuilder\<close> is the
    fields assigned to it together with the list of method calls that completed on
    it. Whether a fallible collaborator call fails, and with which message, is read
    from the record \<open>env\<close>.
  \<^item> Every effectful call into a collaborator appends an \<open>event\<close> to the trace of
    the run. A Go \<^verbatim>\<open>defer\<close> pushes an event on a stack that is replayed, last
    pushed first, when the function returns.
\<close>

subsection \<open>Errors\<close>

text \<open>
  \<open>Errorf m\<close> is \<^verbatim>\<open>fmt.Errorf\<close> with the formatted message \<open>m\<close>;
  \<open>Wrapf e m\<close> is \<^verbatim>\<open>errors.Wrapf(e, m)\<close>; \<open>External m\<close> is an error value handed
  back by a collaborator; \<open>NilDereference\<close> is the run-time panic of a method call
  through a nil \<^verbatim>\<open>*conf.Conf\<close>.
\<close>

datatype error =
    Errorf string
  | Wrapf error string
  | External string
  | NilDereference

subsection \<open>The flag variables and the package state read by the command\<close>

record options =
  memory :: int
  addDisks :: "string list"
  usernet :: bool
  cpuCountHost :: bool
  hostname :: string
  ignition :: string
  kargs :: string
  knetargs :: string
  ignitionFragments :: "string list"
  bindro :: "string list"
  bindrw :: "string list"
  directIgnition :: bool
  forceConfigInjection :: bool
  propagateInitramfsFailure :: bool
  devshell :: bool
  devshellConsole :: bool
  consoleFile :: string
  kolaPlatform :: string
  QEMUOptions_DiskImage :: string
  QEMUOptions_Nvme :: bool
  QEMUOptions_Native4k :: bool
  QEMUOptions_DiskSize :: string
  QEMUOptions_MultiPathDisk :: bool
  QEMUOptions_NbdDisk :: bool
  QEMUOptions_Firmware :: string
  QEMUIsoOptions_IsoPath :: string
  Options_CosaWorkdir :: string

subsection \<open>The configuration document\<close>

datatype UserData = EmptyIgnition | Ignition string

datatype conf_call = AddAutoLogin | ConfMount9p string bool

record Conf =
  source :: UserData
  ignitionV2 :: bool
  ops :: "conf_call list"

definition conf_AddAutoLogin :: "Conf \<Rightarrow> Conf" where
  "conf_AddAutoLogin c = c\<lparr>ops := ops c @ [AddAutoLogin]\<rparr>"

definition conf_Mount9p :: "string \<Rightarrow> bool \<Rightarrow> Conf \<Rightarrow> Conf" where
  "conf_Mount9p dest readonly c = c\<lparr>ops := ops c @ [ConfMount9p dest readonly]\<rparr>"

subsection \<open>The builder and the instance\<close>

record Disk =
  BackingFile :: string
  Channel :: string
  Size :: string
  SectorSize :: int
  MultiPathDisk :: bool
  NbdDisk :: bool

record HostForwardPort =
  Service :: string
  HostPort :: int
  GuestPort :: int

datatype builder_call =
    Mount9p string string bool
  | AddBootDisk Disk
  | AddIso string string
  | AddDisk Disk
  | EnableUsermodeNetworking "HostForwardPort list"
  | Append "string list"
  | SetConfig Conf

record QemuBuilder =
  ForceConfigInjection :: bool
  IgnitionNetworkKargs :: string
  AppendKernelArguments :: string
  Firmware :: string
  Hostname :: string
  Memory :: int
  Processors :: int
  InheritConsole :: bool
  ConsoleFile :: string
  ConfigFile :: string
  calls :: "builder_call list"

definition builder_call :: "builder_call \<Rightarrow> QemuBuilder \<Rightarrow> QemuBuilder" where
  "builder_call c b = b\<lparr>calls := calls b @ [c]\<rparr>"

text \<open>What the two wait methods of a launched instance return (\<open>None\<close> is nil).\<close>

record QemuInstance =
  Wait :: "string option"
  WaitAll :: "string option"

subsection \<open>Events and the environment\<close>

datatype event =
    EvReadFile string
  | EvRender UserData bool
  | EvNewBuilder
  | EvAddBootDisk Disk
  | EvAddIso string string
  | EvAddDisk Disk
  | EvRunDevShellSSH QemuBuilder "Conf option"
  | EvExec QemuBuilder
  | EvWaitAll QemuInstance
  | EvWait QemuInstance
  | EvDestroy QemuInstance
  | EvBuilderClose
  | EvCancel

text \<open>
  The environment answers every call whose outcome the command cannot decide: file
  reads, rendering, the fallible builder methods, the launch, and the development
  shell driver \<^verbatim>\<open>runDevShellSSH\<close>, which is defined in another file of the package.
  \<open>devshellHostname\<close> is a package constant declared outside this file, and
  \<open>NewBuilder\<close> is the builder \<^verbatim>\<open>platform.NewBuilder()\<close> returns.
\<close>

record env =
  ReadFile :: "string \<Rightarrow> string + string"
  Render :: "UserData \<Rightarrow> bool \<Rightarrow> string option"
  IsIgnitionV2 :: bool
  NewBuilder :: QemuBuilder
  AddBootDisk_err :: "QemuBuilder \<Rightarrow> Disk \<Rightarrow> string option"
  AddIso_err :: "QemuBuilder \<Rightarrow> string \<Rightarrow> string \<Rightarrow> string option"
  AddDisk_err :: "QemuBuilder \<Rightarrow> Disk \<Rightarrow> string option"
  Exec :: "QemuBuilder \<Rightarrow> string + QemuInstance"
  runDevShellSSH :: "QemuBuilder \<Rightarrow> Conf option \<Rightarrow> string option"
  devshellHostname :: string

subsection \<open>Standard library helpers\<close>

text \<open>
  \<^verbatim>\<open>strings.Index\<close> and \<^verbatim>\<open>strings.SplitN\<close> for a one-byte separator and a
  non-negative count: at most \<open>n\<close> substrings, the last one the unsplit remainder.
\<close>

fun Index :: "string \<Rightarrow> char \<Rightarrow> nat option" where
  "Index [] sep = None"
| "Index (c # s) sep =
     (if c = sep then Some 0 else map_option Suc (Index s sep))"

fun SplitN :: "string \<Rightarrow> char \<Rightarrow> nat \<Rightarrow> string list" where
  "SplitN s sep 0 = []"
| "SplitN s sep (Suc 0) = [s]"
| "SplitN s sep (Suc (Suc k)) =
     (case Index s sep of
        None \<Rightarrow> [s]
      | Some m \<Rightarrow> take m s # SplitN (drop (Suc m) s) sep (Suc k))"

text \<open>\<^verbatim>\<open>strings.HasPrefix\<close> and \<^verbatim>\<open>filepath.Base\<close> (Unix separators).\<close>

definition HasPrefix :: "string \<Rightarrow> string \<Rightarrow> bool" where
  "HasPrefix s p = (length p \<le> length s \<and> take (length p) s = p)"

definition filepath_Base :: "string \<Rightarrow> string" where
  "filepath_Base path =
     (if path = [] then ''.''
      else let stripped = rev (dropWhile (\<lambda>c. c = CHR ''/'') (rev path));
               element = rev (takeWhile (\<lambda>c. c \<noteq> CHR ''/'') (rev stripped))
           in if element = [] then ''/'' else element)"

subsection \<open>renderFragments and parseBindOpt\<close>

text \<open>
  \<^verbatim>\<open>renderFragments\<close> mutates the document through its pointer, also when it
  returns an error, so the model returns the document beside the error.
\<close>

fun renderFragments :: "string list \<Rightarrow> Conf \<Rightarrow> error option \<times> Conf" where
  "renderFragments [] c = (None, c)"
| "renderFragments (fragtype # fragments) c =
     (if fragtype = ''autologin'' then renderFragments fragments (conf_AddAutoLogin c)
      else (Some (Errorf (''Unknown fragment: '' @ fragtype)), c))"

definition parseBindOpt :: "string \<Rightarrow> error + (string \<times> string)" where
  "parseBindOpt s =
     (let parts = SplitN s CHR '','' 2
      in if length parts = 1
         then Inl (Errorf ''malformed bind option, required: SRC,DEST'')
         else Inr (parts ! 0, parts ! 1))"

subsection \<open>runQemuExec, lines 117 to 145: console and devshell defaults\<close>

definition devshellSetup :: "env \<Rightarrow> options \<Rightarrow> error + options" where
  "devshellSetup env g0 =
     (let g1 = (if devshellConsole g0 then g0\<lparr>devshell := True\<rparr> else g0)
      in if devshellConsole g1 \<and> consoleFile g1 \<noteq> []
         then Inl (Errorf ''Cannot use console devshell and --console-to-file'')
         else if devshell g1 then
           (if directIgnition g1
            then Inl (Errorf ''Cannot use devshell with direct ignition'')
            else if QEMUOptions_DiskImage g1 = [] \<and> kolaPlatform g1 = ''qemu''
            then Inl (Errorf ''No disk image provided'')
            else
              let g2 = g1\<lparr>ignitionFragments := ignitionFragments g1 @ [''autologin''],
                         cpuCountHost := True,
                         usernet := True\<rparr>;
                  g3 = (if Options_CosaWorkdir g2 \<noteq> [] \<and>
                           \<not> HasPrefix (filepath_Base (QEMUOptions_DiskImage g2)) ''rhcos''
                        then g2\<lparr>bindro := bindro g2 @
                                   [Options_CosaWorkdir g2 @ '',/var/mnt/workdir''],
                                 bindrw := bindrw g2 @
                                   [(Options_CosaWorkdir g2 @ ''/tmp'') @ '',/var/mnt/workdir-tmp'']\<rparr>
                        else g2);
                  g4 = (if hostname g3 = [] then g3\<lparr>hostname := devshellHostname env\<rparr> else g3)
              in Inr g4)
         else Inr g1)"

subsection \<open>Lines 147 to 166: the configuration document\<close>

definition rendered :: "env \<Rightarrow> UserData \<Rightarrow> Conf" where
  "rendered env ud = \<lparr>source = ud, ignitionV2 = IsIgnitionV2 env, ops = []\<rparr>"

definition prepareConfig :: "env \<Rightarrow> options \<Rightarrow> (error + Conf option) \<times> event list" where
  "prepareConfig env g =
     (if directIgnition g \<and> ignition g = []
      then (Inl (Errorf ''Cannot use ignition-direct without a path to an Ignition config''), [])
      else if \<not> directIgnition g then
        (if ignition g = [] then
           (case Render env EmptyIgnition (IsIgnitionV2 env) of
              Some m \<Rightarrow> (Inl (Wrapf (External m) ''creating empty config''),
                         [EvRender EmptyIgnition (IsIgnitionV2 env)])
            | None \<Rightarrow> (Inr (Some (rendered env EmptyIgnition)),
                       [EvRender EmptyIgnition (IsIgnitionV2 env)]))
         else
           (case ReadFile env (ignition g) of
              Inl m \<Rightarrow> (Inl (External m), [EvReadFile (ignition g)])
            | Inr buf \<Rightarrow>
                (case Render env (Ignition buf) (IsIgnitionV2 env) of
                   Some m \<Rightarrow> (Inl (Wrapf (External m) (''parsing '' @ ignition g)),
                              [EvReadFile (ignition g), EvRender (Ignition buf) (IsIgnitionV2 env)])
                 | None \<Rightarrow> (Inr (Some (rendered env (Ignition buf))),
                            [EvReadFile (ignition g), EvRender (Ignition buf) (IsIgnitionV2 env)]))))
      else (Inr None, []))"

subsection \<open>Lines 168 to 176: fragments\<close>

text \<open>
  \<^verbatim>\<open>renderFragments\<close> above takes a document. Called through a nil pointer, the Go
  function panics in \<^verbatim>\<open>c.AddAutoLogin()\<close> when the first name is "autologin" and
  returns its error for any other first name; the list is non-empty there.
\<close>

definition fragmentsStep :: "options \<Rightarrow> Conf option \<Rightarrow> error + Conf option" where
  "fragmentsStep g config =
     (if length (ignitionFragments g) > 0 then
        (if directIgnition g
         then Inl (Errorf ''Cannot use fragments with direct ignition'')
         else case config of
                None \<Rightarrow>
                  (if hd (ignitionFragments g) = ''autologin'' then Inl NilDereference
                   else Inl (Wrapf (Errorf (''Unknown fragment: '' @ hd (ignitionFragments g)))
                               ''rendering fragments''))
              | Some c \<Rightarrow>
                  (case renderFragments (ignitionFragments g) c of
                     (Some e, c') \<Rightarrow> Inl (Wrapf e ''rendering fragments'')
                   | (None, c') \<Rightarrow> Inr (Some c')))
      else Inr config)"

subsection \<open>Lines 180 to 201: the bind mounts\<close>

text \<open>
  One loop over a list of bind specifications; \<open>readonly\<close> is \<open>True\<close> for
  \<^verbatim>\<open>bindro\<close> and \<open>False\<close> for \<^verbatim>\<open>bindrw\<close>. The builder and the document are
  returned as they stand when the loop is left, with the error if it was left early.
\<close>

fun mountLoop ::
  "bool \<Rightarrow> bool \<Rightarrow> string list \<Rightarrow> QemuBuilder \<Rightarrow> Conf option
     \<Rightarrow> error option \<times> QemuBuilder \<times> Conf option" where
  "mountLoop direct readonly [] builder config = (None, builder, config)"
| "mountLoop direct readonly (b # bs) builder config =
     (if direct then (Some (Errorf ''Cannot use mounts with direct ignition''), builder, config)
      else case parseBindOpt b of
             Inl err \<Rightarrow> (Some err, builder, config)
           | Inr (src, dest) \<Rightarrow>
               (case config of
                  None \<Rightarrow> (Some NilDereference, builder_call (Mount9p src dest readonly) builder, config)
                | Some c \<Rightarrow>
                    mountLoop direct readonly bs
                      (builder_call (Mount9p src dest readonly) builder)
                      (Some (conf_Mount9p dest readonly c))))"

definition mountBinds ::
  "options \<Rightarrow> QemuBuilder \<Rightarrow> Conf option \<Rightarrow> error option \<times> QemuBuilder \<times> Conf option" where
  "mountBinds g builder config =
     (case mountLoop (directIgnition g) True (bindro g) builder config of
        (Some err, builder1, config1) \<Rightarrow> (Some err, builder1, config1)
      | (None, builder1, config1) \<Rightarrow>
          mountLoop (directIgnition g) False (bindrw g) builder1 config1)"

subsection \<open>Lines 202 to 257: the machine description\<close>

definition bootDisk :: "options \<Rightarrow> Disk" where
  "bootDisk g =
     (let channel = (if QEMUOptions_Nvme g then ''nvme'' else ''virtio'');
          sectorSize = (if QEMUOptions_Native4k g then 4096 else 0)
      in \<lparr>BackingFile = QEMUOptions_DiskImage g,
          Channel = channel,
          Size = QEMUOptions_DiskSize g,
          SectorSize = sectorSize,
          MultiPathDisk = QEMUOptions_MultiPathDisk g,
          NbdDisk = QEMUOptions_NbdDisk g\<rparr>)"

definition addBootDiskStep ::
  "env \<Rightarrow> options \<Rightarrow> QemuBuilder \<Rightarrow> (error + QemuBuilder) \<times> event list" where
  "addBootDiskStep env g builder =
     (if QEMUOptions_DiskImage g \<noteq> [] then
        (case AddBootDisk_err env builder (bootDisk g) of
           Some m \<Rightarrow> (Inl (External m), [EvAddBootDisk (bootDisk g)])
         | None \<Rightarrow> (Inr (builder_call (AddBootDisk (bootDisk g)) builder),
                    [EvAddBootDisk (bootDisk g)]))
      else (Inr builder, []))"

definition addIsoStep ::
  "env \<Rightarrow> options \<Rightarrow> QemuBuilder \<Rightarrow> (error + QemuBuilder) \<times> event list" where
  "addIsoStep env g builder =
     (if QEMUIsoOptions_IsoPath g \<noteq> [] then
        (case AddIso_err env builder (QEMUIsoOptions_IsoPath g) [] of
           Some m \<Rightarrow> (Inl (External m), [EvAddIso (QEMUIsoOptions_IsoPath g) []])
         | None \<Rightarrow> (Inr (builder_call (AddIso (QEMUIsoOptions_IsoPath g) []) builder),
                    [EvAddIso (QEMUIsoOptions_IsoPath g) []]))
      else (Inr builder, []))"

definition sizedDisk :: "string \<Rightarrow> Disk" where
  "sizedDisk sz =
     \<lparr>BackingFile = [], Channel = [], Size = sz, SectorSize = 0,
      MultiPathDisk = False, NbdDisk = False\<rparr>"

fun addDisksLoop ::
  "env \<Rightarrow> string list \<Rightarrow> QemuBuilder \<Rightarrow> (error + QemuBuilder) \<times> event list" where
  "addDisksLoop env [] builder = (Inr builder, [])"
| "addDisksLoop env (sz # rest) builder =
     (case AddDisk_err env builder (sizedDisk sz) of
        Some m \<Rightarrow> (Inl (Wrapf (External m) ''adding additional disk''), [EvAddDisk (sizedDisk sz)])
      | None \<Rightarrow>
          (case addDisksLoop env rest (builder_call (AddDisk (sizedDisk sz)) builder) of
             (r, tr) \<Rightarrow> (r, EvAddDisk (sizedDisk sz) # tr)))"

definition sshForward :: "HostForwardPort list" where
  "sshForward = [\<lparr>Service = ''ssh'', HostPort = 0, GuestPort = 22\<rparr>]"

definition finishBuilder :: "options \<Rightarrow> string list \<Rightarrow> QemuBuilder \<Rightarrow> QemuBuilder" where
  "finishBuilder g args builder =
     (let b1 = (if cpuCountHost g then builder\<lparr>Processors := - 1\<rparr> else builder);
          b2 = (if usernet g then builder_call (EnableUsermodeNetworking sshForward) b1 else b1);
          b3 = b2\<lparr>InheritConsole := True, ConsoleFile := consoleFile g\<rparr>
      in builder_call (Append args) b3)"

definition assemble ::
  "env \<Rightarrow> options \<Rightarrow> string list \<Rightarrow> QemuBuilder \<Rightarrow> (error + QemuBuilder) \<times> event list" where
  "assemble env g args builder =
     (let b1 = builder\<lparr>ForceConfigInjection := forceConfigInjection g\<rparr>;
          b2 = (if length (knetargs g) > 0 then b1\<lparr>IgnitionNetworkKargs := knetargs g\<rparr> else b1);
          b3 = b2\<lparr>AppendKernelArguments := kargs g, Firmware := QEMUOptions_Firmware g\<rparr>
      in case addBootDiskStep env g b3 of
           (Inl err, tr1) \<Rightarrow> (Inl err, tr1)
         | (Inr b4, tr1) \<Rightarrow>
             (case addIsoStep env g b4 of
                (Inl err, tr2) \<Rightarrow> (Inl err, tr1 @ tr2)
              | (Inr b5, tr2) \<Rightarrow>
                  (let b6 = b5\<lparr>Hostname := hostname g\<rparr>;
                       b7 = (if memory g \<noteq> 0 then b6\<lparr>Memory := memory g\<rparr> else b6)
                   in case addDisksLoop env (addDisks g) b7 of
                        (Inl err, tr3) \<Rightarrow> (Inl err, tr1 @ tr2 @ tr3)
                      | (Inr b8, tr3) \<Rightarrow> (Inr (finishBuilder g args b8), tr1 @ tr2 @ tr3))))"

subsection \<open>Lines 117 to 257 together\<close>

text \<open>
  \<open>prepare\<close> runs everything up to the point where the execution mode is chosen. It
  returns the result, the events so far, and the stack of deferred calls: \<^verbatim>\<open>cancel\<close>
  is deferred at line 115 and \<^verbatim>\<open>builder.Close\<close> at line 179.
\<close>

definition prepare ::
  "env \<Rightarrow> options \<Rightarrow> string list
     \<Rightarrow> (error + options \<times> Conf option \<times> QemuBuilder) \<times> event list \<times> event list" where
  "prepare env g0 args =
     (case devshellSetup env g0 of
        Inl err \<Rightarrow> (Inl err, [], [EvCancel])
      | Inr g \<Rightarrow>
          (case prepareConfig env g of
             (Inl err, tr1) \<Rightarrow> (Inl err, tr1, [EvCancel])
           | (Inr config, tr1) \<Rightarrow>
               (case fragmentsStep g config of
                  Inl err \<Rightarrow> (Inl err, tr1, [EvCancel])
                | Inr config1 \<Rightarrow>
                    (case mountBinds g (NewBuilder env) config1 of
                       (Some err, b, c) \<Rightarrow>
                         (Inl err, tr1 @ [EvNewBuilder], [EvBuilderClose, EvCancel])
                     | (None, b, config2) \<Rightarrow>
                         (case assemble env g args b of
                            (Inl err, tr2) \<Rightarrow>
                              (Inl err, tr1 @ [EvNewBuilder] @ tr2, [EvBuilderClose, EvCancel])
                          | (Inr builder, tr2) \<Rightarrow>
                              (Inr (g, config2, builder), tr1 @ [EvNewBuilder] @ tr2,
                               [EvBuilderClose, EvCancel]))))))"

subsection \<open>Lines 259 to 284: launch and wait\<close>

text \<open>
  \<open>attachConfig\<close> is the conditional of lines 262 to 269. \<open>launch\<close> returns the
  result, its events, and the call it deferred (\<^verbatim>\<open>inst.Destroy\<close>, line 275).
\<close>

definition attachConfig :: "options \<Rightarrow> Conf option \<Rightarrow> QemuBuilder \<Rightarrow> error + QemuBuilder" where
  "attachConfig g config builder =
     (case config of
        Some c \<Rightarrow>
          (if directIgnition g
           then Inl (Errorf ''Cannot use fragments/mounts with direct ignition'')
           else Inr (builder_call (SetConfig c) builder))
      | None \<Rightarrow>
          (if directIgnition g then Inr (builder\<lparr>ConfigFile := ignition g\<rparr>)
           else Inr builder))"

definition waitInstance :: "options \<Rightarrow> QemuInstance \<Rightarrow> error option \<times> event list" where
  "waitInstance g inst =
     (if propagateInitramfsFailure g then
        (case WaitAll inst of
           Some m \<Rightarrow> (Some (External m), [EvWaitAll inst])
         | None \<Rightarrow> (None, [EvWaitAll inst]))
      else (map_option External (Wait inst), [EvWait inst]))"

definition launch ::
  "env \<Rightarrow> options \<Rightarrow> Conf option \<Rightarrow> QemuBuilder \<Rightarrow> error option \<times> event list \<times> event list" where
  "launch env g config builder =
     (if devshell g \<and> \<not> devshellConsole g
      then (map_option External (runDevShellSSH env builder config),
            [EvRunDevShellSSH builder config], [])
      else case attachConfig g config builder of
             Inl err \<Rightarrow> (Some err, [], [])
           | Inr b \<Rightarrow>
               (case Exec env b of
                  Inl m \<Rightarrow> (Some (External m), [EvExec b], [])
                | Inr inst \<Rightarrow>
                    (case waitInstance g inst of
                       (r, tr) \<Rightarrow> (r, EvExec b # tr, [EvDestroy inst]))))"

subsection \<open>runQemuExec\<close>

text \<open>
  The result is the returned error (\<open>None\<close> is nil) and the complete trace: the
  events of the body followed by the deferred calls, the last deferred first.
\<close>

definition runQemuExec :: "env \<Rightarrow> options \<Rightarrow> string list \<Rightarrow> error option \<times> event list" where
  "runQemuExec env g0 args =
     (case prepare env g0 args of
        (Inl err, tr, deferred) \<Rightarrow> (Some err, tr @ deferred)
      | (Inr (g, config, builder), tr, deferred) \<Rightarrow>
          (case launch env g config builder of
             (r, tr', deferred') \<Rightarrow> (r, tr @ tr' @ deferred' @ deferred)))"

subsection \<open>Observations on a trace\<close>

text \<open>
  Two classes of events used to state properties. The launch events are the calls
  of lines 259 to 284; the driver events among them are the three calls a run can
  block on.
\<close>

fun isLaunchEvent :: "event \<Rightarrow> bool" where
  "isLaunchEvent (EvRunDevShellSSH b c) = True"
| "isLaunchEvent (EvExec b) = True"
| "isLaunchEvent (EvWaitAll i) = True"
| "isLaunchEvent (EvWait i) = True"
| "isLaunchEvent (EvDestroy i) = True"
| "isLaunchEvent e = False"



text \<open>
  The errors with which \<^verbatim>\<open>runQemuExec\<close> rejects a combination of flags, in the
  order of the source (lines 121, 126, 129, 148, 170, 182 and 193, 264).
\<close>

definition optionConflicts :: "error list" where
  "optionConflicts =
     [Errorf ''Cannot use console devshell and --console-to-file'',
      Errorf ''Cannot use devshell with direct ignition'',
      Errorf ''No disk image provided'',
      Errorf ''Cannot use ignition-direct without a path to an Ignition config'',
      Errorf ''Cannot use fragments with direct ignition'',
      Errorf ''Cannot use mounts with direct ignition'',
      Errorf ''Cannot use fragments/mounts with direct ignition'']"

subsection \<open>Concrete inputs\<close>

text \<open>
  Inputs on which the theorems below are evaluated: a document with no mutation, a
  fresh builder, the flag defaults of the command line, an instance that runs to a
  clean end and one that reports failures, and an environment in which one
  configuration file exists and every collaborator succeeds.
\<close>

definition emptyConf :: Conf where
  "emptyConf = \<lparr>source = EmptyIgnition, ignitionV2 = False, ops = []\<rparr>"

definition freshBuilder :: QemuBuilder where
  "freshBuilder =
     \<lparr>ForceConfigInjection = False, IgnitionNetworkKargs = [], AppendKernelArguments = [],
      Firmware = [], Hostname = [], Memory = 0, Processors = 0, InheritConsole = False,
      ConsoleFile = [], ConfigFile = [], calls = []\<rparr>"

definition defaultOptions :: options where
  "defaultOptions =
     \<lparr>memory = 0, addDisks = [], usernet = False, cpuCountHost = False, hostname = [],
      ignition = [], kargs = [], knetargs = [], ignitionFragments = [], bindro = [],
      bindrw = [], directIgnition = False, forceConfigInjection = False,
      propagateInitramfsFailure = False, devshell = False, devshellConsole = False,
      consoleFile = [], kolaPlatform = ''qemu'', QEMUOptions_DiskImage = [],
      QEMUOptions_Nvme = False, QEMUOptions_Native4k = False, QEMUOptions_DiskSize = [],
      QEMUOptions_MultiPathDisk = False, QEMUOptions_NbdDisk = False,
      QEMUOptions_Firmware = [], QEMUIsoOptions_IsoPath = [], Options_CosaWorkdir = []\<rparr>"

definition quietInstance :: QemuInstance where
  "quietInstance = \<lparr>Wait = None, WaitAll = None\<rparr>"

definition failingInstance :: QemuInstance where
  "failingInstance = \<lparr>Wait = Some ''qemu exited with status 1'',
                        WaitAll = Some ''entered emergency.target in initramfs''\<rparr>"

definition goodEnv :: env where
  "goodEnv =
     \<lparr>ReadFile = (\<lambda>path. if path = ''config.ign'' then Inr ''{}''
                          else Inl (''open '' @ path @ '': no such file or directory'')),
      Render = (\<lambda>ud v2. None),
      IsIgnitionV2 = False,
      NewBuilder = freshBuilder,
      AddBootDisk_err = (\<lambda>b d. None),
      AddIso_err = (\<lambda>b path label. None),
      AddDisk_err = (\<lambda>b d. None),
      Exec = (\<lambda>b. Inr quietInstance),
      runDevShellSSH = (\<lambda>b c. None),
      devshellHostname = ''cosa-devsh''\<rparr>"

text \<open>
  A run with direct ignition, and a development shell run with a working directory.
  The second group of definitions is the state \<^verbatim>\<open>runQemuExec\<close> reaches for it just
  before it chooses the execution mode.
\<close>

definition directOptions :: options where
  "directOptions = defaultOptions\<lparr>directIgnition := True, ignition := ''config.ign''\<rparr>"

definition directBuilder :: QemuBuilder where
  "directBuilder = freshBuilder\<lparr>InheritConsole := True, calls := [Append []]\<rparr>"

definition launchedBuilder :: QemuBuilder where
  "launchedBuilder =
     freshBuilder\<lparr>InheritConsole := True, calls := [Append [], SetConfig emptyConf]\<rparr>"

definition devshellOptions :: options where
  "devshellOptions =
     defaultOptions\<lparr>devshell := True, QEMUOptions_DiskImage := ''fcos.qcow2'',
                    Options_CosaWorkdir := ''/srv''\<rparr>"

definition devshellGlobals :: options where
  "devshellGlobals =
     devshellOptions\<lparr>usernet := True, cpuCountHost := True, hostname := ''cosa-devsh'',
                     ignitionFragments := [''autologin''],
                     bindro := [''/srv,/var/mnt/workdir''],
                     bindrw := [''/srv/tmp,/var/mnt/workdir-tmp'']\<rparr>"

definition fcosDisk :: Disk where
  "fcosDisk =
     \<lparr>BackingFile = ''fcos.qcow2'', Channel = ''virtio'', Size = [], SectorSize = 0,
      MultiPathDisk = False, NbdDisk = False\<rparr>"

definition devshellConf :: Conf where
  "devshellConf =
     emptyConf\<lparr>ops := [AddAutoLogin, ConfMount9p ''/var/mnt/workdir'' True,
                       ConfMount9p ''/var/mnt/workdir-tmp'' False]\<rparr>"

definition devshellBuilder :: QemuBuilder where
  "devshellBuilder =
     freshBuilder\<lparr>Hostname := ''cosa-devsh'', Processors := - 1, InheritConsole := True,
       calls := [Mount9p ''/srv'' ''/var/mnt/workdir'' True,
                 Mount9p ''/srv/tmp'' ''/var/mnt/workdir-tmp'' False,
                 AddBootDisk fcosDisk,
                 EnableUsermodeNetworking [\<lparr>Service = ''ssh'', HostPort = 0, GuestPort = 22\<rparr>],
                 Append []]\<rparr>"

text \<open>
  Bind specifications of which the third is malformed, and the builder and document
  the mount loops leave behind for them.
\<close>

definition bindOptions :: options where
  "bindOptions =
     defaultOptions\<lparr>bindro := [''/host/a,/guest/a''],
                    bindrw := [''/host/b,/guest/b'', ''nocomma'', ''/host/c,/guest/c'']\<rparr>"

definition boundBuilder :: QemuBuilder where
  "boundBuilder =
     freshBuilder\<lparr>calls := [Mount9p ''/host/a'' ''/guest/a'' True,
                            Mount9p ''/host/b'' ''/guest/b'' False]\<rparr>"

definition boundConf :: Conf where
  "boundConf =
     emptyConf\<lparr>ops := [ConfMount9p ''/guest/a'' True, ConfMount9p ''/guest/b'' False]\<rparr>"

section \<open>Properties\<close>

text \<open>The defining equations, collected for evaluation on concrete inputs.\<close>

lemmas run_defs =
  runQemuExec_def prepare_def launch_def attachConfig_def waitInstance_def assemble_def
  finishBuilder_def addBootDiskStep_def addIsoStep_def mountBinds_def fragmentsStep_def
  prepareConfig_def devshellSetup_def rendered_def builder_call_def bootDisk_def
  parseBindOpt_def conf_Mount9p_def conf_AddAutoLogin_def sshForward_def sizedDisk_def
  HasPrefix_def filepath_Base_def numeral_2_eq_2

lemmas input_defs =
  goodEnv_def defaultOptions_def freshBuilder_def quietInstance_def failingInstance_def
  emptyConf_def directOptions_def directBuilder_def launchedBuilder_def devshellOptions_def
  devshellGlobals_def fcosDisk_def devshellConf_def devshellBuilder_def
  bindOptions_def boundBuilder_def boundConf_def

lemma devshell_prepared:
  "prepare goodEnv devshellOptions [] =
     (Inr (devshellGlobals, Some devshellConf, devshellBuilder),
      [EvRender EmptyIgnition False, EvNewBuilder, EvAddBootDisk fcosDisk],
      [EvBuilderClose, EvCancel])"
  by (simp add: run_defs input_defs)

lemma direct_prepared:
  "prepare goodEnv directOptions [] =
     (Inr (directOptions, None, directBuilder), [EvNewBuilder], [EvBuilderClose, EvCancel])"
  by (simp add: run_defs input_defs)

subsection \<open>Splitting a bind specification\<close>

lemma Index_None: "Index s sep = None \<longleftrightarrow> sep \<notin> set s"
  by (induction s) auto

lemma Index_Some:
  "Index s sep = Some m \<Longrightarrow> s = take m s @ sep # drop (Suc m) s \<and> sep \<notin> set (take m s)"
  by (induction s arbitrary: m) (auto split: if_splits)

lemma split_first_unique:
  "src @ sep # dest = src' @ sep # dest' \<Longrightarrow> sep \<notin> set src \<Longrightarrow> sep \<notin> set src'
     \<Longrightarrow> src = src' \<and> dest = dest'"
  by (induction src arbitrary: src') (auto simp: Cons_eq_append_conv)

text \<open>
  Claim C6. \<^verbatim>\<open>parseBindOpt\<close> fails, with the message
  "malformed bind option, required: SRC,DEST" and without a binding, exactly on the
  strings that contain no comma. On every string with at least one comma it succeeds,
  and the pair it returns is the text before the first comma and everything after
  that comma: the one separator it consumes is the first, later commas stay in the
  destination.
\<close>

theorem parseBindOpt_first_comma:
  "(parseBindOpt s = Inl (Errorf ''malformed bind option, required: SRC,DEST'')
      \<longleftrightarrow> CHR '','' \<notin> set s) \<and>
   (parseBindOpt s = Inr (src, dest)
      \<longleftrightarrow> s = src @ CHR '','' # dest \<and> CHR '','' \<notin> set src) \<and>
   (\<exists>r. parseBindOpt s = Inr r) = (CHR '','' \<in> set s)"
proof (cases "Index s CHR '',''")
  case None
  then have no: "CHR '','' \<notin> set s" by (simp add: Index_None)
  have "parseBindOpt s = Inl (Errorf ''malformed bind option, required: SRC,DEST'')"
    using None by (simp add: parseBindOpt_def numeral_2_eq_2)
  with no show ?thesis by auto
next
  case (Some m)
  from Index_Some [OF Some]
  have dec: "s = take m s @ CHR '','' # drop (Suc m) s" and fresh: "CHR '','' \<notin> set (take m s)"
    by simp_all
  have yes: "CHR '','' \<in> set s" using Some Index_None [of s "CHR '',''"] by auto
  have val: "parseBindOpt s = Inr (take m s, drop (Suc m) s)"
    using Some by (simp add: parseBindOpt_def numeral_2_eq_2)
  have "(s = src @ CHR '','' # dest \<and> CHR '','' \<notin> set src)
          \<longleftrightarrow> (src = take m s \<and> dest = drop (Suc m) s)"
    using dec fresh split_first_unique [of src "CHR '',''" dest "take m s" "drop (Suc m) s"]
    by metis
  with val yes show ?thesis by auto
qed

theorem parseBindOpt_first_comma_witness:
  "parseBindOpt ''/host/a,/guest/a,rw'' = Inr (''/host/a'', ''/guest/a,rw'')"
  using parseBindOpt_first_comma [of "''/host/a,/guest/a,rw''" "''/host/a''" "''/guest/a,rw''"]
  by simp

subsection \<open>Fragments\<close>

lemma renderFragments_fst:
  "fst (renderFragments fs c) =
     (case dropWhile (\<lambda>f. f = ''autologin'') fs of
        [] \<Rightarrow> None
      | f # rest \<Rightarrow> Some (Errorf (''Unknown fragment: '' @ f)))"
  by (induction fs arbitrary: c) simp_all

lemma renderFragments_snd:
  "snd (renderFragments fs c) =
     c\<lparr>ops := ops c @ replicate (length (takeWhile (\<lambda>f. f = ''autologin'') fs)) AddAutoLogin\<rparr>"
  by (induction fs arbitrary: c) (simp_all add: conf_AddAutoLogin_def replicate_append_same)

lemma renderFragments_fails_iff:
  "(fst (renderFragments fs c) \<noteq> None) = (\<exists>f\<in>set fs. f \<noteq> ''autologin'')"
  by (induction fs arbitrary: c) simp_all

text \<open>
  Claim C7. \<^verbatim>\<open>renderFragments\<close> returns an error exactly when the list holds a name
  other than "autologin"; the error names the first such entry; and the document it
  leaves behind is the given one with one \<^verbatim>\<open>AddAutoLogin\<close> for each "autologin" entry
  in front of that first unknown name (for every entry when there is none), and with
  no other change. The only source of failure is the name, never the document.
\<close>

theorem renderFragments_first_unknown:
  "(fst (renderFragments fs c) \<noteq> None) = (\<exists>f\<in>set fs. f \<noteq> ''autologin'') \<and>
   fst (renderFragments fs c) =
     (case dropWhile (\<lambda>f. f = ''autologin'') fs of
        [] \<Rightarrow> None
      | f # rest \<Rightarrow> Some (Errorf (''Unknown fragment: '' @ f))) \<and>
   snd (renderFragments fs c) =
     c\<lparr>ops := ops c @ replicate (length (takeWhile (\<lambda>f. f = ''autologin'') fs)) AddAutoLogin\<rparr>"
  using renderFragments_fails_iff [of fs c] renderFragments_fst [of fs c]
    renderFragments_snd [of fs c]
  by simp

theorem renderFragments_first_unknown_witness:
  "renderFragments [''autologin'', ''autologin'', ''sshkey'', ''autologin'', ''motd''] emptyConf =
     (Some (Errorf ''Unknown fragment: sshkey''), emptyConf\<lparr>ops := [AddAutoLogin, AddAutoLogin]\<rparr>)"
  using renderFragments_first_unknown
    [of "[''autologin'', ''autologin'', ''sshkey'', ''autologin'', ''motd'']" emptyConf]
  by (simp add: emptyConf_def prod_eq_iff)

subsection \<open>The phases of the preparation\<close>

lemma prepareConfig_Inr_None:
  "prepareConfig env g = (Inr cfg, tr) \<Longrightarrow> (cfg = None) = directIgnition g"
  by (auto simp: prepareConfig_def split: if_splits option.splits sum.splits)

lemma fragmentsStep_Inr_None:
  "fragmentsStep g cfg = Inr cfg' \<Longrightarrow> (cfg' = None) = (cfg = None)"
  by (auto simp: fragmentsStep_def split: if_splits option.splits sum.splits prod.splits)

lemma mountLoop_None:
  "mountLoop d ro bs b c = (e, b', c') \<Longrightarrow> (c' = None) = (c = None)"
  by (induction bs arbitrary: b c) (auto split: if_splits option.splits sum.splits prod.splits)

lemma mountBinds_None:
  "mountBinds g b c = (e, b', c') \<Longrightarrow> (c' = None) = (c = None)"
  by (auto simp: mountBinds_def split: option.splits prod.splits dest: mountLoop_None)

lemma prepare_InrD:
  "prepare env g0 args = (Inr (g, config, builder), tr, dfr) \<Longrightarrow>
     \<exists>cfg0 tr1 cfg1 b tr2.
       devshellSetup env g0 = Inr g \<and>
       prepareConfig env g = (Inr cfg0, tr1) \<and>
       fragmentsStep g cfg0 = Inr cfg1 \<and>
       mountBinds g (NewBuilder env) cfg1 = (None, b, config) \<and>
       assemble env g args b = (Inr builder, tr2) \<and>
       tr = tr1 @ [EvNewBuilder] @ tr2 \<and>
       dfr = [EvBuilderClose, EvCancel]"
  by (auto simp: prepare_def split: sum.splits prod.splits option.splits)

lemma prepare_config_iff:
  assumes "prepare env g0 args = (Inr (g, config, builder), tr, dfr)"
  shows "(config \<noteq> None) = (\<not> directIgnition g)"
proof -
  from prepare_InrD [OF assms] obtain cfg0 tr1 cfg1 b where
    a: "prepareConfig env g = (Inr cfg0, tr1)" and
    b: "fragmentsStep g cfg0 = Inr cfg1" and
    c: "mountBinds g (NewBuilder env) cfg1 = (None, b, config)"
    by blast
  from prepareConfig_Inr_None [OF a] fragmentsStep_Inr_None [OF b] mountBinds_None [OF c]
  show ?thesis by simp
qed

lemma devshellSetup_err:
  "devshellSetup env g0 = Inl e \<Longrightarrow>
     e \<in> {Errorf ''Cannot use console devshell and --console-to-file'',
          Errorf ''Cannot use devshell with direct ignition'',
          Errorf ''No disk image provided''}"
  by (auto simp: devshellSetup_def Let_def split: if_splits)

lemma prepareConfig_err:
  "prepareConfig env g = (Inl e, tr) \<Longrightarrow>
     e = Errorf ''Cannot use ignition-direct without a path to an Ignition config'' \<or>
     (\<exists>m. e = External m) \<or> (\<exists>c m. e = Wrapf c m)"
  by (auto simp: prepareConfig_def split: if_splits option.splits sum.splits)

lemma fragmentsStep_err:
  "fragmentsStep g cfg = Inl e \<Longrightarrow>
     e = Errorf ''Cannot use fragments with direct ignition'' \<or> e = NilDereference \<or>
     (\<exists>c m. e = Wrapf c m)"
  by (auto simp: fragmentsStep_def split: if_splits option.splits sum.splits prod.splits)

lemma parseBindOpt_err:
  "parseBindOpt s = Inl e \<Longrightarrow> e = Errorf ''malformed bind option, required: SRC,DEST''"
  by (auto simp: parseBindOpt_def Let_def split: if_splits)

lemma mountLoop_err:
  "mountLoop d ro bs b c = (Some e, b', c') \<Longrightarrow>
     e = Errorf ''Cannot use mounts with direct ignition'' \<or> e = NilDereference \<or>
     e = Errorf ''malformed bind option, required: SRC,DEST''"
  by (induction bs arbitrary: b c)
     (auto split: if_splits option.splits sum.splits prod.splits dest: parseBindOpt_err)

lemma mountBinds_err:
  "mountBinds g b c = (Some e, b', c') \<Longrightarrow>
     e = Errorf ''Cannot use mounts with direct ignition'' \<or> e = NilDereference \<or>
     e = Errorf ''malformed bind option, required: SRC,DEST''"
  by (auto simp: mountBinds_def split: option.splits prod.splits dest: mountLoop_err)

lemma addDisksLoop_err:
  "addDisksLoop env szs b = (Inl e, tr) \<Longrightarrow> \<exists>c m. e = Wrapf c m"
  by (induction szs arbitrary: b tr) (auto split: option.splits prod.splits)

lemma assemble_err:
  "assemble env g args b = (Inl e, tr) \<Longrightarrow> (\<exists>m. e = External m) \<or> (\<exists>c m. e = Wrapf c m)"
  by (auto simp: assemble_def addBootDiskStep_def addIsoStep_def Let_def
      split: if_splits option.splits sum.splits prod.splits dest: addDisksLoop_err)

lemma prepare_err_not_conflict:
  assumes "prepare env g0 args = (Inl e, tr, dfr)"
  shows "e \<noteq> Errorf ''Cannot use fragments/mounts with direct ignition''"
proof
  assume e: "e = Errorf ''Cannot use fragments/mounts with direct ignition''"
  from assms show False
    unfolding prepare_def e
    by (auto split: sum.splits prod.splits option.splits
        dest!: devshellSetup_err prepareConfig_err fragmentsStep_err mountBinds_err assemble_err)
qed

text \<open>
  Claim C10. The branch of line 264, "Cannot use fragments/mounts with direct
  ignition", is never taken: whenever the run reaches line 262 the document is
  non-nil exactly when direct ignition is off, so the guard of line 263 is false
  there, and no run returns that error.
\<close>

theorem attachConfig_conflict_unreachable:
  "(prepare env g0 args = (Inr (g, config, builder), tr, dfr) \<longrightarrow>
      (config \<noteq> None) = (\<not> directIgnition g) \<and>
      attachConfig g config builder \<noteq>
        Inl (Errorf ''Cannot use fragments/mounts with direct ignition'')) \<and>
   fst (runQemuExec env g0 args) \<noteq>
     Some (Errorf ''Cannot use fragments/mounts with direct ignition'')"
proof -
  have inv: "(config \<noteq> None) = (\<not> directIgnition g) \<and>
      attachConfig g config builder \<noteq>
        Inl (Errorf ''Cannot use fragments/mounts with direct ignition'')"
    if p: "prepare env g0 args = (Inr (g, config, builder), tr, dfr)"
    for g config builder tr dfr
    using prepare_config_iff [OF p]
    by (auto simp: attachConfig_def split: option.splits)
  have run: "fst (runQemuExec env g0 args) \<noteq>
     Some (Errorf ''Cannot use fragments/mounts with direct ignition'')"
  proof (cases "prepare env g0 args")
    case (fields r tr dfr)
    show ?thesis
    proof (cases r)
      case (Inl e)
      with fields prepare_err_not_conflict [of env g0 args e tr dfr] show ?thesis
        by (simp add: runQemuExec_def)
    next
      case (Inr t)
      obtain g config builder where t: "t = (g, config, builder)" by (cases t) auto
      from inv [of g config builder tr dfr] fields Inr t
      have "attachConfig g config builder \<noteq>
        Inl (Errorf ''Cannot use fragments/mounts with direct ignition'')" by simp
      with fields Inr t show ?thesis
        by (auto simp: runQemuExec_def launch_def waitInstance_def
            split: sum.splits prod.splits option.splits if_splits)
    qed
  qed
  from inv run show ?thesis by blast
qed

theorem attachConfig_conflict_unreachable_witness:
  "prepare goodEnv directOptions [] =
     (Inr (directOptions, None, directBuilder), [EvNewBuilder], [EvBuilderClose, EvCancel]) \<and>
   directIgnition directOptions \<and>
   attachConfig directOptions None directBuilder \<noteq>
     Inl (Errorf ''Cannot use fragments/mounts with direct ignition'') \<and>
   fst (runQemuExec goodEnv directOptions []) \<noteq>
     Some (Errorf ''Cannot use fragments/mounts with direct ignition'')"
  using attachConfig_conflict_unreachable
    [of goodEnv directOptions "[]" directOptions None directBuilder "[EvNewBuilder]"
        "[EvBuilderClose, EvCancel]"]
    direct_prepared
  by simp

subsection \<open>Launch, wait and teardown\<close>

lemma prepareConfig_no_launch:
  "prepareConfig env g = (r, tr) \<Longrightarrow> \<forall>e\<in>set tr. \<not> isLaunchEvent e"
  by (auto simp: prepareConfig_def split: if_splits option.splits sum.splits)

lemma addDisksLoop_no_launch:
  "addDisksLoop env szs b = (r, tr) \<Longrightarrow> \<forall>e\<in>set tr. \<not> isLaunchEvent e"
  by (induction szs arbitrary: b tr) (auto split: option.splits prod.splits)

lemma assemble_no_launch:
  "assemble env g args b = (r, tr) \<Longrightarrow> \<forall>e\<in>set tr. \<not> isLaunchEvent e"
  by (auto simp: assemble_def addBootDiskStep_def addIsoStep_def Let_def
      split: if_splits option.splits sum.splits prod.splits dest!: addDisksLoop_no_launch)

lemma prepare_no_launch:
  "prepare env g0 args = (r, tr, dfr) \<Longrightarrow> \<forall>e\<in>set tr. \<not> isLaunchEvent e"
  unfolding prepare_def
  by (auto split: sum.splits prod.splits option.splits
      dest!: prepareConfig_no_launch assemble_no_launch)

lemma prepare_deferred:
  "prepare env g0 args = (r, tr, dfr) \<Longrightarrow> dfr = [EvCancel] \<or> dfr = [EvBuilderClose, EvCancel]"
  unfolding prepare_def
  by (auto split: sum.splits prod.splits option.splits)

lemma devshellSetup_flags:
  "devshellSetup env g0 = Inr g \<Longrightarrow>
     propagateInitramfsFailure g = propagateInitramfsFailure g0 \<and>
     devshellConsole g = devshellConsole g0 \<and>
     devshell g = (devshell g0 \<or> devshellConsole g0) \<and>
     directIgnition g = directIgnition g0 \<and>
     ignition g = ignition g0"
  by (auto simp: devshellSetup_def Let_def split: if_splits)

lemma launch_exec:
  "launch env g config builder = (r, tr', dfr') \<Longrightarrow> EvExec b \<in> set tr' \<Longrightarrow>
   Exec env b = Inr inst \<Longrightarrow>
     \<exists>w. tr' = [EvExec b, w] \<and> dfr' = [EvDestroy inst] \<and>
       (w = EvWaitAll inst \<and> propagateInitramfsFailure g \<and> r = map_option External (WaitAll inst) \<or>
        w = EvWait inst \<and> \<not> propagateInitramfsFailure g \<and> r = map_option External (Wait inst))"
  by (auto simp: launch_def waitInstance_def
      split: if_splits sum.splits option.splits prod.splits)



lemma run_launched:
  assumes run: "runQemuExec env g0 args = (r, tr)"
    and ex: "EvExec b \<in> set tr"
    and ok: "Exec env b = Inr inst"
  shows "\<exists>pre w. tr = pre @ [EvExec b, w, EvDestroy inst, EvBuilderClose, EvCancel] \<and>
            (\<forall>e\<in>set pre. \<not> isLaunchEvent e) \<and>
            (devshellConsole g0 \<or> \<not> devshell g0) \<and>
            (w = EvWaitAll inst \<and> propagateInitramfsFailure g0 \<and> r = map_option External (WaitAll inst) \<or>
             w = EvWait inst \<and> \<not> propagateInitramfsFailure g0 \<and> r = map_option External (Wait inst))"
proof -
  obtain rp tr0 dfr where p: "prepare env g0 args = (rp, tr0, dfr)"
    by (cases "prepare env g0 args") auto
  have quiet: "\<forall>e\<in>set tr0. \<not> isLaunchEvent e" by (rule prepare_no_launch [OF p])
  have dfr: "dfr = [EvCancel] \<or> dfr = [EvBuilderClose, EvCancel]" by (rule prepare_deferred [OF p])
  show ?thesis
  proof (cases rp)
    case (Inl e)
    with p run have "tr = tr0 @ dfr" by (simp add: runQemuExec_def)
    with ex quiet dfr show ?thesis by auto
  next
    case (Inr t)
    obtain g config builder where t: "t = (g, config, builder)" by (cases t) auto
    obtain r' tr' dfr' where l: "launch env g config builder = (r', tr', dfr')"
      by (cases "launch env g config builder") auto
    from p Inr t have pi: "prepare env g0 args = (Inr (g, config, builder), tr0, dfr)" by simp
    from prepare_InrD [OF pi] have ds: "devshellSetup env g0 = Inr g"
      and d2: "dfr = [EvBuilderClose, EvCancel]" by auto
    from run pi l have tr: "tr = tr0 @ tr' @ dfr' @ dfr" and r: "r = r'"
      by (simp_all add: runQemuExec_def)
    from ex tr quiet d2 have "EvExec b \<in> set tr' \<or> EvExec b \<in> set dfr'" by auto
    moreover have "EvExec b \<notin> set dfr'"
      using l by (auto simp: launch_def split: if_splits sum.splits prod.splits)
    ultimately have ex': "EvExec b \<in> set tr'" by simp
    from launch_exec [OF l ex' ok] obtain w where
      w: "tr' = [EvExec b, w]" "dfr' = [EvDestroy inst]"
         "w = EvWaitAll inst \<and> propagateInitramfsFailure g \<and> r' = map_option External (WaitAll inst) \<or>
          w = EvWait inst \<and> \<not> propagateInitramfsFailure g \<and> r' = map_option External (Wait inst)"
      by blast
    have mode: "devshellConsole g \<or> \<not> devshell g"
      using l ex' by (auto simp: launch_def split: if_splits)
    have pf: "propagateInitramfsFailure g = propagateInitramfsFailure g0"
      "devshellConsole g = devshellConsole g0" "devshell g = (devshell g0 \<or> devshellConsole g0)"
      using devshellSetup_flags [OF ds] by simp_all
    have shape: "tr = tr0 @ [EvExec b, w, EvDestroy inst, EvBuilderClose, EvCancel]"
      using tr w d2 by simp
    from shape quiet w(3) pf r mode show ?thesis by blast
  qed
qed

text \<open>
  Claim C1. In every run in which \<^verbatim>\<open>builder.Exec()\<close> is called and returns an
  instance, the trace ends with that call, one wait on the instance, \<^verbatim>\<open>Destroy\<close> on
  the instance, \<^verbatim>\<open>builder.Close\<close> and \<^verbatim>\<open>cancel\<close>; nothing before the launch is a
  launch event, so \<^verbatim>\<open>Destroy\<close> occurs exactly once; and the error returned by the run
  is the error the wait returned, whatever it is (nil, a failure of the instance, or
  the outcome of a cancelled wait).
\<close>

theorem destroy_exactly_once:
  assumes run: "runQemuExec env g0 args = (r, tr)"
    and ex: "EvExec b \<in> set tr"
    and ok: "Exec env b = Inr inst"
  shows "(\<exists>pre w. tr = pre @ [EvExec b, w, EvDestroy inst, EvBuilderClose, EvCancel] \<and>
            (\<forall>e\<in>set pre. \<not> isLaunchEvent e) \<and>
            (w = EvWaitAll inst \<and> propagateInitramfsFailure g0 \<and> r = map_option External (WaitAll inst) \<or>
             w = EvWait inst \<and> \<not> propagateInitramfsFailure g0 \<and> r = map_option External (Wait inst))) \<and>
         count_list tr (EvDestroy inst) = 1"
proof -
  from run_launched [OF run ex ok] obtain pre w where
    shape: "tr = pre @ [EvExec b, w, EvDestroy inst, EvBuilderClose, EvCancel]" and
    quiet: "\<forall>e\<in>set pre. \<not> isLaunchEvent e" and
    w: "w = EvWaitAll inst \<and> propagateInitramfsFailure g0 \<and> r = map_option External (WaitAll inst) \<or>
        w = EvWait inst \<and> \<not> propagateInitramfsFailure g0 \<and> r = map_option External (Wait inst)"
    by blast
  have "EvDestroy inst \<notin> set pre" using quiet by auto
  then have c0: "count_list pre (EvDestroy inst) = 0" by (simp add: count_list_0_iff)
  have "w \<noteq> EvDestroy inst" using w by auto
  then have "count_list tr (EvDestroy inst) = 1" using shape c0 by simp
  with shape quiet w show ?thesis by blast
qed

theorem destroy_exactly_once_witness:
  "runQemuExec (goodEnv\<lparr>Exec := \<lambda>b. Inr failingInstance\<rparr>)
      (defaultOptions\<lparr>propagateInitramfsFailure := True\<rparr>) [] =
     (Some (External ''entered emergency.target in initramfs''),
      [EvRender EmptyIgnition False, EvNewBuilder, EvExec launchedBuilder,
       EvWaitAll failingInstance, EvDestroy failingInstance, EvBuilderClose, EvCancel]) \<and>
   count_list
     (snd (runQemuExec (goodEnv\<lparr>Exec := \<lambda>b. Inr failingInstance\<rparr>)
        (defaultOptions\<lparr>propagateInitramfsFailure := True\<rparr>) []))
     (EvDestroy failingInstance) = 1"
proof -
  have run: "runQemuExec (goodEnv\<lparr>Exec := \<lambda>b. Inr failingInstance\<rparr>)
      (defaultOptions\<lparr>propagateInitramfsFailure := True\<rparr>) [] =
     (Some (External ''entered emergency.target in initramfs''),
      [EvRender EmptyIgnition False, EvNewBuilder, EvExec launchedBuilder,
       EvWaitAll failingInstance, EvDestroy failingInstance, EvBuilderClose, EvCancel])"
    by (simp add: run_defs input_defs)
  have ex: "EvExec launchedBuilder \<in> set [EvRender EmptyIgnition False, EvNewBuilder,
       EvExec launchedBuilder, EvWaitAll failingInstance, EvDestroy failingInstance,
       EvBuilderClose, EvCancel]" by simp
  have ok: "Exec (goodEnv\<lparr>Exec := \<lambda>b. Inr failingInstance\<rparr>) launchedBuilder = Inr failingInstance"
    by simp
  from destroy_exactly_once [OF run ex ok]
  have "count_list [EvRender EmptyIgnition False, EvNewBuilder, EvExec launchedBuilder,
       EvWaitAll failingInstance, EvDestroy failingInstance, EvBuilderClose, EvCancel]
       (EvDestroy failingInstance) = 1" by blast
  with run show ?thesis by (simp only: snd_conv simp_thms)
qed

subsection \<open>The execution mode\<close>






subsection \<open>Direct ignition with fragments or mounts\<close>

lemma mountLoop_direct:
  "bs \<noteq> [] \<Longrightarrow> mountLoop True ro bs b c = (Some (Errorf ''Cannot use mounts with direct ignition''), b, c)"
  by (cases bs) simp_all

lemma mountBinds_direct:
  "directIgnition g \<Longrightarrow> bindro g \<noteq> [] \<or> bindrw g \<noteq> [] \<Longrightarrow>
     mountBinds g b c = (Some (Errorf ''Cannot use mounts with direct ignition''), b, c)"
  by (cases "bindro g"; cases "bindrw g") (simp_all add: mountBinds_def)

text \<open>
  Claim C3, as the code has it. With direct ignition on and a fragment or a bind
  specification supplied, every run is rejected with one of the option conflict
  errors; no file is read, no document is rendered, no builder method is called and
  nothing is launched. When a fragment is supplied (or an earlier check fails) the
  only event is the deferred \<^verbatim>\<open>cancel\<close>. When only bind specifications are supplied
  and the earlier checks pass, the builder has already been created at line 178, and
  it is closed on the way out.
\<close>

theorem direct_ignition_conflicts_rejected:
  assumes d: "directIgnition g0"
    and s: "ignitionFragments g0 \<noteq> [] \<or> bindro g0 \<noteq> [] \<or> bindrw g0 \<noteq> []"
  shows "(\<exists>e\<in>set optionConflicts. fst (runQemuExec env g0 args) = Some e) \<and>
         snd (runQemuExec env g0 args) =
           (if ignitionFragments g0 = [] \<and> \<not> devshell g0 \<and> \<not> devshellConsole g0 \<and>
               ignition g0 \<noteq> []
            then [EvNewBuilder, EvBuilderClose, EvCancel]
            else [EvCancel])"
proof (cases "devshellSetup env g0")
  case (Inl e)
  then have "prepare env g0 args = (Inl e, [], [EvCancel])" by (simp add: prepare_def)
  moreover from Inl d have "e \<in> set optionConflicts \<and> (devshell g0 \<or> devshellConsole g0)"
    by (auto simp: devshellSetup_def optionConflicts_def Let_def split: if_splits)
  ultimately show ?thesis by (auto simp: runQemuExec_def)
next
  case (Inr g)
  with d have same: "g = g0" and nd: "\<not> devshell g0" "\<not> devshellConsole g0"
    by (auto simp: devshellSetup_def Let_def split: if_splits)
  show ?thesis
  proof (cases "ignition g0 = []")
    case True
    with d Inr same show ?thesis
      by (simp add: runQemuExec_def prepare_def prepareConfig_def optionConflicts_def)
  next
    case False
    with d have pc: "prepareConfig env g0 = (Inr None, [])" by (simp add: prepareConfig_def)
    show ?thesis
    proof (cases "ignitionFragments g0 = []")
      case True
      with s have b: "bindro g0 \<noteq> [] \<or> bindrw g0 \<noteq> []" by simp
      from True have fs: "fragmentsStep g0 None = Inr None" by (simp add: fragmentsStep_def)
      from Inr same pc fs mountBinds_direct [OF d b] True False nd show ?thesis
        by (simp add: runQemuExec_def prepare_def optionConflicts_def)
    next
      case nonempty: False
      with d have fs: "fragmentsStep g0 None = Inl (Errorf ''Cannot use fragments with direct ignition'')"
        by (simp add: fragmentsStep_def)
      from Inr same pc fs nonempty show ?thesis
        by (simp add: runQemuExec_def prepare_def optionConflicts_def)
    qed
  qed
qed

text \<open>
  A read-only bind with direct ignition: the conflict is found inside the mount
  loop, after \<^verbatim>\<open>platform.NewBuilder()\<close>.
\<close>

theorem direct_ignition_mount_counterexample:
  "runQemuExec goodEnv
     (defaultOptions\<lparr>directIgnition := True, ignition := ''config.ign'',
                     bindro := [''/host/a,/guest/a'']\<rparr>) [] =
   (Some (Errorf ''Cannot use mounts with direct ignition''),
    [EvNewBuilder, EvBuilderClose, EvCancel])"
  by (simp add: run_defs input_defs)

theorem direct_ignition_conflicts_rejected_witness:
  "runQemuExec goodEnv
     (defaultOptions\<lparr>directIgnition := True, ignition := ''config.ign'',
                     ignitionFragments := [''autologin'']\<rparr>) [] =
   (Some (Errorf ''Cannot use fragments with direct ignition''), [EvCancel])"
proof -
  let ?g = "defaultOptions\<lparr>directIgnition := True, ignition := ''config.ign'',
                     ignitionFragments := [''autologin'']\<rparr>"
  have d: "directIgnition ?g" by simp
  have s: "ignitionFragments ?g \<noteq> [] \<or> bindro ?g \<noteq> [] \<or> bindrw ?g \<noteq> []" by simp
  have r: "fst (runQemuExec goodEnv ?g []) = Some (Errorf ''Cannot use fragments with direct ignition'')"
    by (simp add: run_defs input_defs)
  from direct_ignition_conflicts_rejected [OF d s, of goodEnv "[]"] r
  show ?thesis by (simp add: prod_eq_iff)
qed

subsection \<open>Preparing the configuration\<close>







subsection \<open>The bind mounts\<close>

lemma mountLoop_shape:
  "mountLoop False ro bs b (Some cf) = (e, b', c') \<Longrightarrow>
     \<exists>ms. map Inr ms = map parseBindOpt (take (length ms) bs) \<and>
          length ms \<le> length bs \<and>
          b' = b\<lparr>calls := calls b @ map (\<lambda>(src, dest). Mount9p src dest ro) ms\<rparr> \<and>
          c' = Some (cf\<lparr>ops := ops cf @ map (\<lambda>(src, dest). ConfMount9p dest ro) ms\<rparr>) \<and>
          (e = None) = (length ms = length bs)"
proof (induction bs arbitrary: b cf)
  case Nil
  then show ?case by simp
next
  case (Cons x xs)
  show ?case
  proof (cases "parseBindOpt x")
    case (Inl err)
    with Cons.prems have "e = Some err" "b' = b" "c' = Some cf" by simp_all
    then show ?thesis by (intro exI [of _ "[]"]) simp
  next
    case (Inr p)
    obtain src dest where p: "p = (src, dest)" by (cases p) auto
    from Cons.prems Inr p have
      "mountLoop False ro xs (builder_call (Mount9p src dest ro) b)
         (Some (conf_Mount9p dest ro cf)) = (e, b', c')" by simp
    from Cons.IH [OF this] obtain ms where
      ms: "map Inr ms = map parseBindOpt (take (length ms) xs)"
          "length ms \<le> length xs"
          "b' = (builder_call (Mount9p src dest ro) b)
                  \<lparr>calls := calls (builder_call (Mount9p src dest ro) b) @
                     map (\<lambda>(src, dest). Mount9p src dest ro) ms\<rparr>"
          "c' = Some ((conf_Mount9p dest ro cf)
                  \<lparr>ops := ops (conf_Mount9p dest ro cf) @
                     map (\<lambda>(src, dest). ConfMount9p dest ro) ms\<rparr>)"
          "(e = None) = (length ms = length xs)"
      by blast
    show ?thesis
      using ms Inr p
      by (intro exI [of _ "(src, dest) # ms"])
         (simp add: builder_call_def conf_Mount9p_def)
  qed
qed

lemma mountBinds_shape:
  assumes nd: "\<not> directIgnition g" and m: "mountBinds g b (Some cf) = (e, b', c')"
  shows "\<exists>ro rw.
         map Inr ro = map parseBindOpt (take (length ro) (bindro g)) \<and>
         map Inr rw = map parseBindOpt (take (length rw) (bindrw g)) \<and>
         (rw \<noteq> [] \<longrightarrow> length ro = length (bindro g)) \<and>
         b' = b\<lparr>calls := calls b @ map (\<lambda>(src, dest). Mount9p src dest True) ro
                                  @ map (\<lambda>(src, dest). Mount9p src dest False) rw\<rparr> \<and>
         c' = Some (cf\<lparr>ops := ops cf @ map (\<lambda>(src, dest). ConfMount9p dest True) ro
                                      @ map (\<lambda>(src, dest). ConfMount9p dest False) rw\<rparr>) \<and>
         (e = None) =
           (length ro = length (bindro g) \<and> length rw = length (bindrw g))"
proof -
  obtain e1 b1 c1 where l1: "mountLoop False True (bindro g) b (Some cf) = (e1, b1, c1)"
    by (cases "mountLoop False True (bindro g) b (Some cf)") auto
  from mountLoop_shape [OF l1] obtain ro where
    ro: "map Inr ro = map parseBindOpt (take (length ro) (bindro g))"
        "b1 = b\<lparr>calls := calls b @ map (\<lambda>(src, dest). Mount9p src dest True) ro\<rparr>"
        "c1 = Some (cf\<lparr>ops := ops cf @ map (\<lambda>(src, dest). ConfMount9p dest True) ro\<rparr>)"
        "(e1 = None) = (length ro = length (bindro g))"
    by blast
  show ?thesis
  proof (cases e1)
    case (Some err)
    with m l1 nd have "e = Some err" "b' = b1" "c' = c1" by (simp_all add: mountBinds_def)
    with ro Some show ?thesis by (intro exI [of _ ro] exI [of _ "[]"]) simp
  next
    case None
    with m l1 nd ro(3) have l2:
      "mountLoop False False (bindrw g) b1
         (Some (cf\<lparr>ops := ops cf @ map (\<lambda>(src, dest). ConfMount9p dest True) ro\<rparr>)) = (e, b', c')"
      by (simp add: mountBinds_def)
    from mountLoop_shape [OF l2] obtain rw where
      rw: "map Inr rw = map parseBindOpt (take (length rw) (bindrw g))"
          "b' = b1\<lparr>calls := calls b1 @ map (\<lambda>(src, dest). Mount9p src dest False) rw\<rparr>"
          "c' = Some ((cf\<lparr>ops := ops cf @ map (\<lambda>(src, dest). ConfMount9p dest True) ro\<rparr>)
                 \<lparr>ops := ops (cf\<lparr>ops := ops cf @ map (\<lambda>(src, dest). ConfMount9p dest True) ro\<rparr>)
                    @ map (\<lambda>(src, dest). ConfMount9p dest False) rw\<rparr>)"
          "(e = None) = (length rw = length (bindrw g))"
      by blast
    from ro rw None show ?thesis
      by (intro exI [of _ ro] exI [of _ rw]) simp
  qed
qed




subsection \<open>The machine description\<close>

lemma addDisksLoop_Inr:
  "addDisksLoop env szs b = (Inr b', tr) \<Longrightarrow> \<exists>ds. b' = b\<lparr>calls := calls b @ map AddDisk ds\<rparr>"
proof (induction szs arbitrary: b tr)
  case Nil
  then show ?case by (intro exI [of _ "[]"]) simp
next
  case (Cons sz rest)
  from Cons.prems obtain tr' where
    r: "addDisksLoop env rest (builder_call (AddDisk (sizedDisk sz)) b) = (Inr b', tr')"
    by (auto split: option.splits prod.splits)
  from Cons.IH [OF r] obtain ds where
    "b' = (builder_call (AddDisk (sizedDisk sz)) b)
            \<lparr>calls := calls (builder_call (AddDisk (sizedDisk sz)) b) @ map AddDisk ds\<rparr>"
    by blast
  then show ?case
    by (intro exI [of _ "sizedDisk sz # ds"]) (simp add: builder_call_def)
qed

lemma addDisksLoop_no_boot:
  "addDisksLoop env szs b = (r, tr) \<Longrightarrow> EvAddBootDisk d \<notin> set tr"
  by (induction szs arbitrary: b tr) (auto split: option.splits prod.splits)

lemma assemble_boot_event:
  "assemble env g args b = (r, tr) \<Longrightarrow>
     (EvAddBootDisk d \<in> set tr) = (QEMUOptions_DiskImage g \<noteq> [] \<and> d = bootDisk g) \<and>
     count_list tr (EvAddBootDisk d) \<le> 1"
  by (auto simp: assemble_def addBootDiskStep_def addIsoStep_def Let_def count_list_0_iff
      addDisksLoop_no_boot
      split: if_splits option.splits sum.splits prod.splits)

lemma assemble_Inr:
  assumes "assemble env g args b = (Inr b', tr)"
  shows "Hostname b' = hostname g \<and>
         (cpuCountHost g \<longrightarrow> Processors b' = - 1) \<and>
         (usernet g \<longrightarrow> EnableUsermodeNetworking sshForward \<in> set (calls b')) \<and>
         (AddBootDisk d \<in> set (calls b')) =
           (AddBootDisk d \<in> set (calls b) \<or> QEMUOptions_DiskImage g \<noteq> [] \<and> d = bootDisk g)"
  using assms
  by (auto simp: assemble_def addBootDiskStep_def addIsoStep_def finishBuilder_def
      builder_call_def Let_def
      split: if_splits option.splits sum.splits prod.splits dest!: addDisksLoop_Inr)

text \<open>
  Claim C9. Assembling the builder calls \<^verbatim>\<open>AddBootDisk\<close> exactly when the disk image
  path is non-empty, at most once, and with the disk whose channel is "nvme" under the
  NVMe flag and "virtio" otherwise and whose sector size is 4096 under the native-4k
  flag and 0 otherwise. When the assembly succeeds, the boot disks recorded on the
  builder are those it had before together with that one.
\<close>

theorem boot_disk_added:
  "(EvAddBootDisk d \<in> set (snd (assemble env g args b))) =
     (QEMUOptions_DiskImage g \<noteq> [] \<and>
      d = \<lparr>BackingFile = QEMUOptions_DiskImage g,
           Channel = (if QEMUOptions_Nvme g then ''nvme'' else ''virtio''),
           Size = QEMUOptions_DiskSize g,
           SectorSize = (if QEMUOptions_Native4k g then 4096 else 0),
           MultiPathDisk = QEMUOptions_MultiPathDisk g,
           NbdDisk = QEMUOptions_NbdDisk g\<rparr>) \<and>
   count_list (snd (assemble env g args b)) (EvAddBootDisk d) \<le> 1 \<and>
   (fst (assemble env g args b) = Inr b' \<longrightarrow>
      (AddBootDisk d \<in> set (calls b')) =
        (AddBootDisk d \<in> set (calls b) \<or>
         QEMUOptions_DiskImage g \<noteq> [] \<and>
         d = \<lparr>BackingFile = QEMUOptions_DiskImage g,
              Channel = (if QEMUOptions_Nvme g then ''nvme'' else ''virtio''),
              Size = QEMUOptions_DiskSize g,
              SectorSize = (if QEMUOptions_Native4k g then 4096 else 0),
              MultiPathDisk = QEMUOptions_MultiPathDisk g,
              NbdDisk = QEMUOptions_NbdDisk g\<rparr>))"
proof -
  obtain r tr where a: "assemble env g args b = (r, tr)"
    by (cases "assemble env g args b") auto
  have bd: "bootDisk g = \<lparr>BackingFile = QEMUOptions_DiskImage g,
           Channel = (if QEMUOptions_Nvme g then ''nvme'' else ''virtio''),
           Size = QEMUOptions_DiskSize g,
           SectorSize = (if QEMUOptions_Native4k g then 4096 else 0),
           MultiPathDisk = QEMUOptions_MultiPathDisk g,
           NbdDisk = QEMUOptions_NbdDisk g\<rparr>"
    by (simp add: bootDisk_def)
  from assemble_boot_event [OF a, of d] have ev:
    "(EvAddBootDisk d \<in> set tr) = (QEMUOptions_DiskImage g \<noteq> [] \<and> d = bootDisk g)"
    "count_list tr (EvAddBootDisk d) \<le> 1" by simp_all
  have cl: "(AddBootDisk d \<in> set (calls b')) =
        (AddBootDisk d \<in> set (calls b) \<or> QEMUOptions_DiskImage g \<noteq> [] \<and> d = bootDisk g)"
    if "r = Inr b'"
    using assemble_Inr [of env g args b b' tr d] a that by simp
  from ev cl a show ?thesis unfolding bd by simp
qed

theorem boot_disk_added_witness:
  "snd (assemble goodEnv
          (defaultOptions\<lparr>QEMUOptions_DiskImage := ''rhcos.qcow2'', QEMUOptions_Nvme := True,
                          QEMUOptions_Native4k := True\<rparr>) [] freshBuilder) =
     [EvAddBootDisk \<lparr>BackingFile = ''rhcos.qcow2'', Channel = ''nvme'', Size = [],
                     SectorSize = 4096, MultiPathDisk = False, NbdDisk = False\<rparr>] \<and>
   EvAddBootDisk fcosDisk \<notin> set (snd (assemble goodEnv defaultOptions [] freshBuilder))"
proof -
  have a: "snd (assemble goodEnv
          (defaultOptions\<lparr>QEMUOptions_DiskImage := ''rhcos.qcow2'', QEMUOptions_Nvme := True,
                          QEMUOptions_Native4k := True\<rparr>) [] freshBuilder) =
     [EvAddBootDisk \<lparr>BackingFile = ''rhcos.qcow2'', Channel = ''nvme'', Size = [],
                     SectorSize = 4096, MultiPathDisk = False, NbdDisk = False\<rparr>]"
    by (simp add: run_defs input_defs)
  have "QEMUOptions_DiskImage defaultOptions = []" by (simp add: defaultOptions_def)
  with boot_disk_added [of fcosDisk goodEnv defaultOptions "[]" freshBuilder]
  have "EvAddBootDisk fcosDisk \<notin> set (snd (assemble goodEnv defaultOptions [] freshBuilder))"
    by simp
  with a show ?thesis by simp
qed

subsection \<open>Devshell defaults\<close>

lemma devshellSetup_devshell:
  "devshellSetup env g0 = Inr g \<Longrightarrow> devshell g0 \<or> devshellConsole g0 \<Longrightarrow>
     usernet g \<and> cpuCountHost g \<and> \<not> directIgnition g \<and>
     ignitionFragments g = ignitionFragments g0 @ [''autologin''] \<and>
     hostname g = (if hostname g0 = [] then devshellHostname env else hostname g0)"
  by (auto simp: devshellSetup_def Let_def split: if_splits)

lemma renderFragments_ok_ops:
  "renderFragments fs c = (None, c') \<Longrightarrow> ops c' = ops c @ replicate (length fs) AddAutoLogin"
  by (induction fs arbitrary: c)
     (auto simp: conf_AddAutoLogin_def replicate_append_same split: if_splits)

text \<open>
  Claim C8. When \<^verbatim>\<open>devshell\<close> or \<^verbatim>\<open>devshell-console\<close> is set and the run reaches the
  choice of the execution mode, user-mode networking and the host CPU count are on,
  "autologin" has been appended to the fragments, the hostname is the given one or,
  if none was given, the devshell default; the builder has \<^verbatim>\<open>Processors = -1\<close>, the
  SSH port forward and that hostname; and the document exists and has received
  \<^verbatim>\<open>AddAutoLogin\<close>.
\<close>

theorem devshell_defaults:
  "(devshellSetup env g0 = Inr g \<and> (devshell g0 \<or> devshellConsole g0) \<longrightarrow>
      devshell g \<and> usernet g \<and> cpuCountHost g \<and>
      ignitionFragments g = ignitionFragments g0 @ [''autologin''] \<and>
      hostname g = (if hostname g0 = [] then devshellHostname env else hostname g0)) \<and>
   (prepare env g0 args = (Inr (g, config, builder), tr, dfr) \<and>
    (devshell g0 \<or> devshellConsole g0) \<longrightarrow>
      Processors builder = - 1 \<and>
      EnableUsermodeNetworking [\<lparr>Service = ''ssh'', HostPort = 0, GuestPort = 22\<rparr>]
        \<in> set (calls builder) \<and>
      Hostname builder = (if hostname g0 = [] then devshellHostname env else hostname g0) \<and>
      (\<exists>cf. config = Some cf \<and> AddAutoLogin \<in> set (ops cf)))"
proof -
  have flags: "devshell g \<and> usernet g \<and> cpuCountHost g \<and>
      ignitionFragments g = ignitionFragments g0 @ [''autologin''] \<and>
      hostname g = (if hostname g0 = [] then devshellHostname env else hostname g0)"
    if s: "devshellSetup env g0 = Inr g" and ds: "devshell g0 \<or> devshellConsole g0"
    using devshellSetup_devshell [OF s ds] devshellSetup_flags [OF s] ds by simp
  have built: "Processors builder = - 1 \<and>
      EnableUsermodeNetworking [\<lparr>Service = ''ssh'', HostPort = 0, GuestPort = 22\<rparr>]
        \<in> set (calls builder) \<and>
      Hostname builder = (if hostname g0 = [] then devshellHostname env else hostname g0) \<and>
      (\<exists>cf. config = Some cf \<and> AddAutoLogin \<in> set (ops cf))"
    if p: "prepare env g0 args = (Inr (g, config, builder), tr, dfr)"
      and ds: "devshell g0 \<or> devshellConsole g0"
  proof -
    from prepare_InrD [OF p] obtain cfg0 tr1 cfg1 b tr2 where
      s: "devshellSetup env g0 = Inr g" and
      pc: "prepareConfig env g = (Inr cfg0, tr1)" and
      fs: "fragmentsStep g cfg0 = Inr cfg1" and
      mb: "mountBinds g (NewBuilder env) cfg1 = (None, b, config)" and
      as: "assemble env g args b = (Inr builder, tr2)"
      by blast
    from devshellSetup_devshell [OF s ds] have g:
      "usernet g" "cpuCountHost g" "\<not> directIgnition g"
      "ignitionFragments g = ignitionFragments g0 @ [''autologin'']"
      "hostname g = (if hostname g0 = [] then devshellHostname env else hostname g0)"
      by simp_all
    from assemble_Inr [OF as] g(1,2) have b:
      "Processors builder = - 1" "Hostname builder = hostname g"
      "EnableUsermodeNetworking sshForward \<in> set (calls builder)"
      by simp_all
    from prepareConfig_Inr_None [OF pc] g(3) obtain c0 where c0: "cfg0 = Some c0" by auto
    from fs c0 g(3,4) obtain c1 where
      c1: "cfg1 = Some c1" and rf: "renderFragments (ignitionFragments g) c0 = (None, c1)"
      by (auto simp: fragmentsStep_def split: if_splits option.splits prod.splits)
    from renderFragments_ok_ops [OF rf] g(4) have "AddAutoLogin \<in> set (ops c1)" by simp
    moreover from mountBinds_shape [OF g(3) mb [unfolded c1]]
    obtain ro rw :: "(string \<times> string) list" where
      "config = Some (c1\<lparr>ops := ops c1 @ map (\<lambda>(src, dest). ConfMount9p dest True) ro
                                        @ map (\<lambda>(src, dest). ConfMount9p dest False) rw\<rparr>)"
      by blast
    ultimately have "\<exists>cf. config = Some cf \<and> AddAutoLogin \<in> set (ops cf)" by simp
    with g b show ?thesis by (simp add: sshForward_def)
  qed
  from flags built show ?thesis by blast
qed

lemma devshell_setup:
  "devshellSetup goodEnv devshellOptions = Inr devshellGlobals"
  by (simp add: run_defs input_defs)

theorem devshell_defaults_witness:
  "devshellSetup goodEnv devshellOptions = Inr devshellGlobals \<and>
   prepare goodEnv devshellOptions [] =
     (Inr (devshellGlobals, Some devshellConf, devshellBuilder),
      [EvRender EmptyIgnition False, EvNewBuilder, EvAddBootDisk fcosDisk],
      [EvBuilderClose, EvCancel]) \<and>
   devshell devshellOptions \<and>
   usernet devshellGlobals \<and> cpuCountHost devshellGlobals \<and>
   ignitionFragments devshellGlobals = [''autologin''] \<and>
   hostname devshellGlobals = ''cosa-devsh'' \<and>
   Processors devshellBuilder = - 1 \<and>
   Hostname devshellBuilder = ''cosa-devsh'' \<and>
   AddAutoLogin \<in> set (ops devshellConf)"
proof -
  have i: "ignitionFragments devshellOptions = []" "hostname devshellOptions = []"
    "devshellHostname goodEnv = ''cosa-devsh''" "devshell devshellOptions"
    by (simp_all add: devshellOptions_def defaultOptions_def goodEnv_def)
  from devshell_defaults
         [of goodEnv devshellOptions devshellGlobals "[]" "Some devshellConf" devshellBuilder
             "[EvRender EmptyIgnition False, EvNewBuilder, EvAddBootDisk fcosDisk]"
             "[EvBuilderClose, EvCancel]"]
       devshell_setup devshell_prepared i
  show ?thesis by simp
qed

end
